theory Spec2Isabelle
  imports Complex_Main "HOL-Library.Word"
begin

section \<open>LogosClient: data model\<close>

text \<open>
  The client of \<^verbatim>\<open>LogosClient\<close> is a class with mutable fields, driven by timer
  callbacks, socket listeners and recorder events. Each method and each callback is a
  function from the client state to the client state. Everything a method does to the
  outside (console output, calls of subscribed handlers, socket traffic, timers, recorder
  and track operations) is appended, in program order, to the field \<open>effects\<close>.

  JavaScript numbers are modelled as mathematical integers: sensitivities, thresholds,
  delays and millisecond timestamps are integers far below \<open>2^53\<close>, where the arithmetic of
  the source is exact.
\<close>

datatype LogosStatus = DISCONNECTED | CONNECTING | IDLE | LISTENING | THINKING | SPEAKING

datatype DeviceRole = doll | dev | guardian

datatype PersonaMode = child | senior

record VadConfig =
  sensitivity :: int
  autoCalibrate :: bool
  timeout :: int

text \<open>The optional \<^verbatim>\<open>vad\<close> member of the options: every field may be absent.\<close>

record VadOptions =
  opt_sensitivity :: "int option"
  opt_autoCalibrate :: "bool option"
  opt_timeout :: "int option"

record LogosClientOptions =
  opt_serverUrl :: string
  opt_apiKey :: "string option"
  opt_deviceId :: "string option"
  opt_role :: "DeviceRole option"
  opt_mode :: "PersonaMode option"
  opt_vad :: "VadOptions option"
  opt_autoReconnect :: "bool option"
  opt_reconnectAttempts :: "int option"

record TextEventData =
  text_userText :: "string option"
  aiText :: string
  isFinal :: bool
  text_isFiller :: "bool option"

record AudioEventData =
  audio_text :: string
  priority :: int
  audio_userText :: "string option"
  isIntercom :: "bool option"
  audio_isFiller :: "bool option"

text \<open>A field of \<^verbatim>\<open>SettingsEventData\<close> is \<open>None\<close> when absent or \<^verbatim>\<open>undefined\<close>.\<close>

record SettingsEventData =
  settings_mode :: "PersonaMode option"
  vadSensitivity :: "int option"
  vadAutoCalibrate :: "bool option"
  vadTimeout :: "int option"

text \<open>The keys of \<^verbatim>\<open>LogosEvents\<close>, and an event together with its arguments.
  An \<^verbatim>\<open>Error\<close> object is its message.\<close>

datatype event_kind =
  K_connected | K_disconnected | K_status | K_text | K_audio | K_settings | K_error

datatype event =
  Ev_connected
  | Ev_disconnected
  | Ev_status LogosStatus
  | Ev_text TextEventData
  | Ev_audio AudioEventData
  | Ev_settings SettingsEventData
  | Ev_error string

fun kind_of :: "event \<Rightarrow> event_kind" where
  "kind_of Ev_connected = K_connected"
| "kind_of Ev_disconnected = K_disconnected"
| "kind_of (Ev_status s) = K_status"
| "kind_of (Ev_text d) = K_text"
| "kind_of (Ev_audio d) = K_audio"
| "kind_of (Ev_settings d) = K_settings"
| "kind_of (Ev_error m) = K_error"

text \<open>
  A subscribed handler is a function of the host application; the client only stores it,
  compares it by identity and calls it. It is modelled by its identity, and a call of it
  is an effect: handlers are taken to return normally and not to call back into the
  client.
\<close>

type_synonym handler = nat

type_synonym byte = "8 word"

text \<open>A \<^verbatim>\<open>Blob\<close> is its bytes; its \<^verbatim>\<open>size\<close> is their number.\<close>

type_synonym blob = "byte list"

text \<open>Timer handles. The handles of \<^verbatim>\<open>setTimeout\<close> and \<^verbatim>\<open>setInterval\<close> are positive
  integers or objects, so a stored handle is always truthy.\<close>

datatype handle = Handle nat

datatype callback = SilenceExpired | RestartListening | VadTick

datatype outbound =
  Handshake DeviceRole string
  | TextInput string PersonaMode
  | AudioInput "byte list" string PersonaMode

record io_options =
  reconnection :: bool
  reconnectionAttempts :: int
  reconnectionDelay :: int
  auth :: "string option"

record socket_obj =
  sock_url :: string
  sock_options :: io_options
  sock_connected :: bool
  sock_id :: "string option"
  sock_listeners :: "string list"

datatype recorder_state = Inactive | Recording | Paused

record media_recorder =
  rec_mimeType :: string
  rec_state :: recorder_state

datatype context_state = Suspended | Running | Closed

record audio_context =
  ctx_state :: context_state

record analyser_node =
  fftSize :: nat

text \<open>A media stream is the list of its tracks.\<close>

datatype media_stream = MediaStream (getTracks: "nat list")

datatype console_level = Warn | Log | Error

text \<open>What is printed on the console: the arguments of the call, a template literal as
  its text parts and the numbers put into it.\<close>

datatype console_arg = S string | N int

datatype effect =
  Console console_level "console_arg list"
  | Dispatch event "handler list"
  | SocketOpen string io_options
  | SocketEmit outbound
  | SocketDisconnect
  | SetTimeout callback int
  | SetInterval callback int
  | ClearTimeout handle
  | ClearInterval handle
  | ContextResume
  | RecorderStart
  | RecorderStop
  | TrackStop nat

record client =
  serverUrl :: string
  apiKey :: "string option"
  deviceId :: string
  role :: DeviceRole
  mode :: PersonaMode
  vadConfig :: VadConfig
  autoReconnect :: bool
  reconnectAttempts :: int
  status :: LogosStatus
  socket :: "socket_obj option"
  calibratedNoiseFloor :: "int option"
  mediaRecorder :: "media_recorder option"
  audioChunks :: "blob list"
  audioContext :: "audio_context option"
  analyser :: "analyser_node option"
  mediaStream :: "media_stream option"
  silenceTimeout :: "handle option"
  voiceDetected :: bool
  recordingStartTime :: int
  vadIntervalId :: "handle option"
  eventHandlers :: "event_kind \<Rightarrow> handler list option"
  effects :: "effect list"

definition MIN_SPEECH_DURATION :: int where
  "MIN_SPEECH_DURATION = 400"

section \<open>Construction and public accessors\<close>

text \<open>
  The constructor. \<open>generated\<close> is the value of \<^verbatim>\<open>generateDeviceId()\<close>, which reads the
  key-value store, the clock and the random generator. \<^verbatim>\<open>||\<close> falls back on an absent
  or empty string, \<^verbatim>\<open>??\<close> on an absent value only.
\<close>

definition new_client :: "LogosClientOptions \<Rightarrow> string \<Rightarrow> client" where
  "new_client options generated =
    \<lparr> serverUrl = opt_serverUrl options,
      apiKey = opt_apiKey options,
      deviceId = (case opt_deviceId options of
                    None \<Rightarrow> generated
                  | Some d \<Rightarrow> if d = [] then generated else d),
      role = (case opt_role options of None \<Rightarrow> doll | Some r \<Rightarrow> r),
      mode = (case opt_mode options of None \<Rightarrow> child | Some m \<Rightarrow> m),
      vadConfig =
        \<lparr> sensitivity = (case Option.bind (opt_vad options) opt_sensitivity of
                           None \<Rightarrow> 5 | Some s \<Rightarrow> s),
          autoCalibrate = (case Option.bind (opt_vad options) opt_autoCalibrate of
                             None \<Rightarrow> True | Some a \<Rightarrow> a),
          timeout = (case Option.bind (opt_vad options) opt_timeout of
                       None \<Rightarrow> 700 | Some t \<Rightarrow> t) \<rparr>,
      autoReconnect = (case opt_autoReconnect options of None \<Rightarrow> True | Some a \<Rightarrow> a),
      reconnectAttempts = (case opt_reconnectAttempts options of None \<Rightarrow> 5 | Some n \<Rightarrow> n),
      status = DISCONNECTED,
      socket = None,
      calibratedNoiseFloor = None,
      mediaRecorder = None,
      audioChunks = [],
      audioContext = None,
      analyser = None,
      mediaStream = None,
      silenceTimeout = None,
      voiceDetected = False,
      recordingStartTime = 0,
      vadIntervalId = None,
      eventHandlers = (\<lambda>k. None),
      effects = [] \<rparr>"

text \<open>\<^verbatim>\<open>this.socket?.connected ?? false\<close>\<close>

definition isConnected :: "client \<Rightarrow> bool" where
  "isConnected c = (case socket c of None \<Rightarrow> False | Some s \<Rightarrow> sock_connected s)"

definition perform :: "effect \<Rightarrow> client \<Rightarrow> client" where
  "perform e c = c\<lparr>effects := effects c @ [e]\<rparr>"

text \<open>The effects a run from \<open>c\<close> to \<open>c'\<close> has added.\<close>

definition new_effects :: "client \<Rightarrow> client \<Rightarrow> effect list" where
  "new_effects c c' = drop (length (effects c)) (effects c')"

definition on_event :: "event_kind \<Rightarrow> handler \<Rightarrow> client \<Rightarrow> client" where
  "on_event k h c =
    (let hs = (case eventHandlers c k of None \<Rightarrow> [] | Some hs \<Rightarrow> hs)
     in c\<lparr>eventHandlers := (eventHandlers c)(k \<mapsto> hs @ [h])\<rparr>)"

text \<open>\<^verbatim>\<open>indexOf\<close> finds the first occurrence, \<^verbatim>\<open>splice(index, 1)\<close> removes it.\<close>

definition off_event :: "event_kind \<Rightarrow> handler \<Rightarrow> client \<Rightarrow> client" where
  "off_event k h c =
    (case eventHandlers c k of
       None \<Rightarrow> c
     | Some hs \<Rightarrow> c\<lparr>eventHandlers := (eventHandlers c)(k \<mapsto> remove1 h hs)\<rparr>)"

text \<open>
  \<^verbatim>\<open>emit\<close> calls the handlers registered for the kind of the event, in registration
  order. One invocation of \<^verbatim>\<open>emit\<close> is one \<open>Dispatch\<close> effect, which lists the handlers
  called (none when no list exists for the kind).
\<close>

definition handlers_of :: "client \<Rightarrow> event_kind \<Rightarrow> handler list" where
  "handlers_of c k = (case eventHandlers c k of None \<Rightarrow> [] | Some hs \<Rightarrow> hs)"

definition emit :: "event \<Rightarrow> client \<Rightarrow> client" where
  "emit ev c = perform (Dispatch ev (handlers_of c (kind_of ev))) c"

definition setStatus :: "LogosStatus \<Rightarrow> client \<Rightarrow> client" where
  "setStatus s c = (if status c \<noteq> s then emit (Ev_status s) (c\<lparr>status := s\<rparr>) else c)"

section \<open>Connection\<close>

text \<open>The names under which \<^verbatim>\<open>setupSocketListeners\<close> registers a listener, in order.\<close>

definition listener_names :: "string list" where
  "listener_names =
    [''connect'', ''disconnect'', ''status'', ''set_settings'', ''live_text'',
     ''audio_output'', ''error'', ''auth_error'', ''connect_error'']"

definition setupSocketListeners :: "client \<Rightarrow> client" where
  "setupSocketListeners c =
    (case socket c of
       None \<Rightarrow> c
     | Some s \<Rightarrow> c\<lparr>socket := Some (s\<lparr>sock_listeners := sock_listeners s @ listener_names\<rparr>)\<rparr>)"

text \<open>
  \<^verbatim>\<open>io(serverUrl, options)\<close> creates a socket that is not yet connected and starts to
  connect. \<^verbatim>\<open>auth\<close> is given only for a non-empty API key.
\<close>

definition io :: "client \<Rightarrow> socket_obj" where
  "io c =
    \<lparr> sock_url = serverUrl c,
      sock_options =
        \<lparr> reconnection = autoReconnect c,
          reconnectionAttempts = reconnectAttempts c,
          reconnectionDelay = 1000,
          auth = (case apiKey c of None \<Rightarrow> None | Some k \<Rightarrow> if k = [] then None else Some k) \<rparr>,
      sock_connected = False,
      sock_id = None,
      sock_listeners = [] \<rparr>"

definition connect :: "client \<Rightarrow> client" where
  "connect c =
    (if isConnected c then perform (Console Warn [S ''[LogosClient] Already connected'']) c
     else
       (let c1 = setStatus CONNECTING c;
            s = io c1;
            c2 = perform (SocketOpen (sock_url s) (sock_options s)) (c1\<lparr>socket := Some s\<rparr>)
        in setupSocketListeners c2))"

section \<open>Capture\<close>

text \<open>
  \<^verbatim>\<open>stopListening\<close>: four guarded steps in sequence. \<^verbatim>\<open>MediaRecorder.stop()\<close> makes the
  recorder inactive at once; the browser later delivers the last chunk and then fires
  \<^verbatim>\<open>onstop\<close>, which runs \<open>handleRecordingStop\<close>.
\<close>

definition stop_interval :: "client \<Rightarrow> client" where
  "stop_interval c =
    (case vadIntervalId c of
       None \<Rightarrow> c
     | Some h \<Rightarrow> (perform (ClearInterval h) c)\<lparr>vadIntervalId := None\<rparr>)"

definition stop_silence_timer :: "client \<Rightarrow> client" where
  "stop_silence_timer c =
    (case silenceTimeout c of
       None \<Rightarrow> c
     | Some h \<Rightarrow> (perform (ClearTimeout h) c)\<lparr>silenceTimeout := None\<rparr>)"

definition stop_recorder :: "client \<Rightarrow> client" where
  "stop_recorder c =
    (case mediaRecorder c of
       None \<Rightarrow> c
     | Some r \<Rightarrow>
         if rec_state r = Recording
         then (perform RecorderStop c)\<lparr>mediaRecorder := Some (r\<lparr>rec_state := Inactive\<rparr>)\<rparr>
         else c)"

definition stop_tracks :: "client \<Rightarrow> client" where
  "stop_tracks c =
    (case mediaStream c of
       None \<Rightarrow> c
     | Some ms \<Rightarrow> (fold (\<lambda>t. perform (TrackStop t)) (getTracks ms) c)\<lparr>mediaStream := None\<rparr>)"

definition stopListening :: "client \<Rightarrow> client" where
  "stopListening c = stop_tracks (stop_recorder (stop_silence_timer (stop_interval c)))"

definition disconnect :: "client \<Rightarrow> client" where
  "disconnect c =
    (let c1 = stopListening c;
         c2 = (case socket c1 of None \<Rightarrow> c1 | Some s \<Rightarrow> perform SocketDisconnect c1)
     in setStatus DISCONNECTED (c2\<lparr>socket := None\<rparr>))"

definition sendText :: "string \<Rightarrow> client \<Rightarrow> client" where
  "sendText text c =
    (if \<not> isConnected c
     then perform (Console Warn [S ''[LogosClient] Cannot send text: not connected'']) c
     else perform (SocketEmit (TextInput text (mode c))) c)"

text \<open>
  \<^verbatim>\<open>updateSettings\<close>. Both persona modes are non-empty strings, so a present mode is
  truthy; the three VAD fields are tested against \<^verbatim>\<open>undefined\<close>.
\<close>

definition updateSettings :: "SettingsEventData \<Rightarrow> client \<Rightarrow> client" where
  "updateSettings settings c =
    (let c1 = (case settings_mode settings of None \<Rightarrow> c | Some m \<Rightarrow> c\<lparr>mode := m\<rparr>);
         c2 = (case vadSensitivity settings of
                 None \<Rightarrow> c1
               | Some v \<Rightarrow> c1\<lparr>vadConfig := (vadConfig c1)\<lparr>sensitivity := v\<rparr>\<rparr>);
         c3 = (case vadAutoCalibrate settings of
                 None \<Rightarrow> c2
               | Some v \<Rightarrow> c2\<lparr>vadConfig := (vadConfig c2)\<lparr>autoCalibrate := v\<rparr>\<rparr>)
     in (case vadTimeout settings of
           None \<Rightarrow> c3
         | Some v \<Rightarrow> c3\<lparr>vadConfig := (vadConfig c3)\<lparr>timeout := v\<rparr>\<rparr>))"

text \<open>
  What the browser answers during \<^verbatim>\<open>startListening\<close>: the outcome of
  \<^verbatim>\<open>getUserMedia\<close> (the rejection reason, or the stream), the state of a newly created
  audio context, the encodings the recorder supports, the encoding it takes when none is
  requested, and the handle of the new interval.
\<close>

record capture_env =
  getUserMedia :: "string + media_stream"
  newContextState :: context_state
  isTypeSupported :: "string \<Rightarrow> bool"
  defaultMimeType :: string
  intervalHandle :: handle

definition getSupportedMimeType :: "(string \<Rightarrow> bool) \<Rightarrow> string" where
  "getSupportedMimeType supported =
    (case find supported
            [''audio/webm;codecs=opus'', ''audio/webm'', ''audio/mp4'', ''audio/ogg'',
             ''audio/wav''] of
       None \<Rightarrow> []
     | Some t \<Rightarrow> t)"

text \<open>The \<^verbatim>\<open>try\<close> block of \<^verbatim>\<open>startListening\<close> once the stream has been obtained.
  The browser calls after \<^verbatim>\<open>getUserMedia\<close> are taken to succeed.\<close>

definition begin_capture :: "capture_env \<Rightarrow> media_stream \<Rightarrow> client \<Rightarrow> client" where
  "begin_capture env stream c =
    (let c1 = c\<lparr>mediaStream := Some stream\<rparr>;
         c2 = (case audioContext c1 of
                 None \<Rightarrow> c1\<lparr>audioContext := Some \<lparr>ctx_state = newContextState env\<rparr>\<rparr>
               | Some a \<Rightarrow> c1);
         c3 = (case audioContext c2 of
                 None \<Rightarrow> c2
               | Some a \<Rightarrow>
                   if ctx_state a = Suspended
                   then (perform ContextResume c2)\<lparr>audioContext := Some (a\<lparr>ctx_state := Running\<rparr>)\<rparr>
                   else c2);
         c4 = c3\<lparr>analyser := Some \<lparr>fftSize = 256\<rparr>\<rparr>;
         c5 = c4\<lparr>voiceDetected := False, recordingStartTime := 0\<rparr>;
         mimeType = getSupportedMimeType (isTypeSupported env);
         r = \<lparr>rec_mimeType = (if mimeType = [] then defaultMimeType env else mimeType),
              rec_state = Inactive\<rparr>;
         c6 = c5\<lparr>mediaRecorder := Some r, audioChunks := []\<rparr>;
         c7 = (perform RecorderStart c6)\<lparr>mediaRecorder := Some (r\<lparr>rec_state := Recording\<rparr>)\<rparr>;
         c8 = setStatus LISTENING c7
     in (perform (SetInterval VadTick 100) c8)\<lparr>vadIntervalId := Some (intervalHandle env)\<rparr>)"

definition startListening :: "capture_env \<Rightarrow> client \<Rightarrow> client" where
  "startListening env c =
    (if \<not> isConnected c
     then perform (Console Warn [S ''[LogosClient] Cannot start listening: not connected'']) c
     else if status c = LISTENING
     then perform (Console Warn [S ''[LogosClient] Already listening'']) c
     else
       (case getUserMedia env of
          Inr stream \<Rightarrow> begin_capture env stream c
        | Inl err \<Rightarrow>
            setStatus IDLE
              (emit (Ev_error ''Microphone access denied'')
                 (perform (Console Error [S ''[LogosClient] Microphone error:'', S err]) c))))"

text \<open>\<^verbatim>\<open>ondataavailable\<close>: a chunk is kept when it is not empty.\<close>

definition ondataavailable :: "blob \<Rightarrow> client \<Rightarrow> client" where
  "ondataavailable d c = (if length d > 0 then c\<lparr>audioChunks := audioChunks c @ [d]\<rparr> else c)"

section \<open>Socket listeners\<close>

text \<open>One function for each listener that \<^verbatim>\<open>setupSocketListeners\<close> registers; its
  arguments are the fields of the message received.\<close>

definition on_connect :: "client \<Rightarrow> client" where
  "on_connect c =
    (let c1 = perform (Console Log [S ''[LogosClient] Connected:'',
                 S (case Option.bind (socket c) sock_id of None \<Rightarrow> ''undefined'' | Some i \<Rightarrow> i)]) c;
         c2 = (case socket c1 of
                 None \<Rightarrow> c1
               | Some s \<Rightarrow> perform (SocketEmit (Handshake (role c1) (deviceId c1))) c1)
     in emit Ev_connected (setStatus IDLE c2))"

definition on_disconnect :: "client \<Rightarrow> client" where
  "on_disconnect c =
    emit Ev_disconnected
      (setStatus DISCONNECTED (perform (Console Log [S ''[LogosClient] Disconnected'']) c))"

definition on_status :: "string \<Rightarrow> client \<Rightarrow> client" where
  "on_status st c =
    (if st = ''thinking'' then setStatus THINKING c
     else if st = ''idle'' then setStatus IDLE c
     else c)"

definition on_set_settings :: "SettingsEventData \<Rightarrow> client \<Rightarrow> client" where
  "on_set_settings d c = emit (Ev_settings d) (updateSettings d c)"

definition on_live_text ::
  "string \<Rightarrow> string \<Rightarrow> bool \<Rightarrow> string option \<Rightarrow> bool option \<Rightarrow> client \<Rightarrow> client" where
  "on_live_text r text final userText filler c =
    (if r = ''ai''
     then emit (Ev_text \<lparr>text_userText = userText, aiText = text, isFinal = final,
                         text_isFiller = filler\<rparr>) c
     else c)"

definition on_audio_output :: "AudioEventData \<Rightarrow> client \<Rightarrow> client" where
  "on_audio_output d c =
    emit (Ev_audio \<lparr>audio_text = audio_text d, priority = priority d,
                    audio_userText = audio_userText d, isIntercom = isIntercom d,
                    audio_isFiller = audio_isFiller d\<rparr>) c"

definition on_error :: "string \<Rightarrow> client \<Rightarrow> client" where
  "on_error message c =
    emit (Ev_error message) (perform (Console Error [S ''[LogosClient] Server error:'', S message]) c)"

definition on_auth_error :: "string \<Rightarrow> string \<Rightarrow> client \<Rightarrow> client" where
  "on_auth_error code message c =
    emit (Ev_error (''Auth failed: '' @ message @ '' ('' @ code @ '')''))
      (setStatus DISCONNECTED
         (perform (Console Error [S ''[LogosClient] Auth error:'', S code, S message]) c))"

definition on_connect_error :: "string \<Rightarrow> client \<Rightarrow> client" where
  "on_connect_error message c =
    emit (Ev_error message)
      (setStatus DISCONNECTED
         (perform (Console Error [S ''[LogosClient] Connection error:'', S message]) c))"

section \<open>Voice activity detection\<close>

record VadThresholds =
  silenceThreshold :: int
  voiceThreshold :: int

definition getVadThresholds :: "client \<Rightarrow> VadThresholds" where
  "getVadThresholds c =
    (let sens = sensitivity (vadConfig c) in
     if \<not> autoCalibrate (vadConfig c)
     then (let baseThreshold = max 5 (35 - (sens * 3))
           in \<lparr>silenceThreshold = baseThreshold, voiceThreshold = baseThreshold + 5\<rparr>)
     else (let noiseFloor = (case calibratedNoiseFloor c of None \<Rightarrow> 10 | Some n \<Rightarrow> n);
               margin = 15
           in \<lparr>silenceThreshold = noiseFloor + margin, voiceThreshold = noiseFloor + margin + 5\<rparr>))"

text \<open>
  The mean of the frequency bytes. The quotient is a fraction, so it is a real number
  here; for an empty array the source divides zero by zero and gets \<^verbatim>\<open>NaN\<close>, which is
  \<open>None\<close>: every comparison with it is false.
\<close>

definition average :: "byte list \<Rightarrow> real option" where
  "average dataArray =
    (if dataArray = [] then None
     else Some (real (fold (\<lambda>b a. a + unat b) dataArray 0) / real (length dataArray)))"

definition exceeds :: "real option \<Rightarrow> int \<Rightarrow> bool" where
  "exceeds a t = (case a of None \<Rightarrow> False | Some x \<Rightarrow> x > real_of_int t)"

definition below :: "real option \<Rightarrow> int \<Rightarrow> bool" where
  "below a t = (case a of None \<Rightarrow> False | Some x \<Rightarrow> x < real_of_int t)"

text \<open>
  The callback of the silence timer, run at time \<open>now\<close>. The callback does not clear the
  handle itself when it stops the capture: \<open>stopListening\<close> does.
\<close>

definition silence_expired :: "int \<Rightarrow> client \<Rightarrow> client" where
  "silence_expired now c =
    (let speechDuration = now - recordingStartTime c;
         c1 = perform (Console Log [S ''[LogosClient] Silence detected. Duration: '',
                                    N speechDuration, S ''ms'']) c
     in if speechDuration \<ge> MIN_SPEECH_DURATION
        then stopListening c1
        else c1\<lparr>voiceDetected := False, silenceTimeout := None\<rparr>)"

text \<open>
  One evaluation of \<^verbatim>\<open>detectVoiceActivity\<close>: \<open>dataArray\<close> is the array after
  \<^verbatim>\<open>getByteFrequencyData\<close> has filled it, \<open>now\<close> the clock, \<open>fresh\<close> the handle that
  \<^verbatim>\<open>setTimeout\<close> returns if it is called.
\<close>

definition detectVoiceActivity :: "byte list \<Rightarrow> int \<Rightarrow> handle \<Rightarrow> client \<Rightarrow> client" where
  "detectVoiceActivity dataArray now fresh c =
    (case analyser c of
       None \<Rightarrow> c
     | Some a \<Rightarrow>
         (let avg = average dataArray;
              th = getVadThresholds c;
              c1 = (if exceeds avg (voiceThreshold th)
                    then
                      (let c' = (if \<not> voiceDetected c
                                 then (perform (Console Log [S ''[LogosClient] Voice detected'']) c)
                                        \<lparr>voiceDetected := True, recordingStartTime := now\<rparr>
                                 else c)
                       in stop_silence_timer c')
                    else c)
          in if below avg (silenceThreshold th) \<and> voiceDetected c1
             then (case silenceTimeout c1 of
                     None \<Rightarrow> (perform (SetTimeout SilenceExpired (timeout (vadConfig c1))) c1)
                               \<lparr>silenceTimeout := Some fresh\<rparr>
                   | Some h \<Rightarrow> c1)
             else c1))"

text \<open>The callback of the sampling interval.\<close>

definition vad_tick :: "byte list \<Rightarrow> int \<Rightarrow> handle \<Rightarrow> client \<Rightarrow> client" where
  "vad_tick dataArray now fresh c =
    (case mediaRecorder c of
       None \<Rightarrow> c
     | Some r \<Rightarrow> if rec_state r = Recording then detectVoiceActivity dataArray now fresh c else c)"

section \<open>Finalize\<close>

text \<open>\<^verbatim>\<open>this.mediaRecorder?.mimeType || 'audio/webm'\<close>: an empty type is falsy.\<close>

definition recorded_mimeType :: "client \<Rightarrow> string" where
  "recorded_mimeType c =
    (case mediaRecorder c of
       None \<Rightarrow> ''audio/webm''
     | Some r \<Rightarrow> if rec_mimeType r = [] then ''audio/webm'' else rec_mimeType r)"

text \<open>
  \<^verbatim>\<open>handleRecordingStop\<close>, run at time \<open>now\<close>. The blob is the concatenation of the
  chunks. The source waits for the bytes of the blob between setting the status and
  sending; the run is taken without another callback in between.
\<close>

definition handleRecordingStop :: "int \<Rightarrow> client \<Rightarrow> client" where
  "handleRecordingStop now c =
    (let mimeType = recorded_mimeType c;
         audioBlob = concat (audioChunks c);
         speechDuration = now - recordingStartTime c
     in if voiceDetected c \<and> length audioBlob > 2000 \<and> speechDuration \<ge> MIN_SPEECH_DURATION
        then
          (let c1 = perform (Console Log [S ''[LogosClient] Sending audio: '',
                                          N (int (length audioBlob)), S '' bytes'']) c;
               c2 = setStatus THINKING c1
           in (case socket c2 of
                 None \<Rightarrow> c2
               | Some s \<Rightarrow> perform (SocketEmit (AudioInput audioBlob mimeType (mode c2))) c2))
        else
          (let c1 = perform (Console Log [S ''[LogosClient] No valid speech, resuming'']) c;
               c2 = setStatus IDLE c1
           in perform (SetTimeout RestartListening 500) c2))"

section \<open>Reading the effects\<close>

fun is_status_event :: "effect \<Rightarrow> bool" where
  "is_status_event (Dispatch (Ev_status s) hs) = True"
| "is_status_event e = False"

fun is_error_event :: "effect \<Rightarrow> bool" where
  "is_error_event (Dispatch (Ev_error m) hs) = True"
| "is_error_event e = False"

fun is_socket_emit :: "effect \<Rightarrow> bool" where
  "is_socket_emit (SocketEmit m) = True"
| "is_socket_emit e = False"

fun is_set_timeout :: "effect \<Rightarrow> bool" where
  "is_set_timeout (SetTimeout cb d) = True"
| "is_set_timeout e = False"

text \<open>The effects that start or stop capturing, sampling or sending.\<close>

fun is_capture_action :: "effect \<Rightarrow> bool" where
  "is_capture_action RecorderStart = True"
| "is_capture_action RecorderStop = True"
| "is_capture_action (SetInterval cb d) = True"
| "is_capture_action (SetTimeout cb d) = True"
| "is_capture_action (SocketEmit m) = True"
| "is_capture_action (TrackStop t) = True"
| "is_capture_action e = False"

section \<open>A session, step by step\<close>

text \<open>
  Concrete states, each obtained from the constructor by running the methods and
  callbacks above. The channel coming up is the one step of the socket library: it marks
  the socket connected before the \<^verbatim>\<open>connect\<close> listener runs.
\<close>

definition demo_options :: LogosClientOptions where
  "demo_options =
    \<lparr> opt_serverUrl = ''http://localhost:8000'',
      opt_apiKey = Some ''sk-xxx'',
      opt_deviceId = None,
      opt_role = None,
      opt_mode = Some child,
      opt_vad = Some \<lparr>opt_sensitivity = None, opt_autoCalibrate = None, opt_timeout = Some 200\<rparr>,
      opt_autoReconnect = None,
      opt_reconnectAttempts = None \<rparr>"

definition channel_up :: "client \<Rightarrow> client" where
  "channel_up c =
    (case socket c of
       None \<Rightarrow> c
     | Some s \<Rightarrow> c\<lparr>socket := Some (s\<lparr>sock_connected := True, sock_id := Some ''x1''\<rparr>)\<rparr>)"

definition demo_new :: client where
  "demo_new = on_event K_error 2 (on_event K_status 1 (new_client demo_options ''logos_1_abc''))"

definition demo_connecting :: client where
  "demo_connecting = connect demo_new"

definition demo_idle :: client where
  "demo_idle = on_connect (channel_up demo_connecting)"

definition demo_env :: capture_env where
  "demo_env =
    \<lparr> getUserMedia = Inr (MediaStream [0]),
      newContextState = Suspended,
      isTypeSupported = (\<lambda>t. t = ''audio/webm'' \<or> t = ''audio/ogg''),
      defaultMimeType = ''audio/ogg'',
      intervalHandle = Handle 1 \<rparr>"

definition demo_env_denied :: capture_env where
  "demo_env_denied = demo_env\<lparr>getUserMedia := Inl ''NotAllowedError''\<rparr>"

definition demo_listening :: client where
  "demo_listening = startListening demo_env demo_idle"

text \<open>Loud samples at time 1000, then quiet samples at time 1100, which arm the timer.\<close>

definition demo_voiced :: client where
  "demo_voiced = vad_tick [200, 180, 220, 200] 1000 (Handle 2) demo_listening"

definition demo_silent :: client where
  "demo_silent = vad_tick [3, 0, 2, 1] 1100 (Handle 3) demo_voiced"

text \<open>What one call of \<open>stopListening\<close> cancels and releases, read off the state before it.\<close>

definition interval_cancel :: "client \<Rightarrow> effect list" where
  "interval_cancel c = (case vadIntervalId c of None \<Rightarrow> [] | Some h \<Rightarrow> [ClearInterval h])"

definition timer_cancel :: "client \<Rightarrow> effect list" where
  "timer_cancel c = (case silenceTimeout c of None \<Rightarrow> [] | Some h \<Rightarrow> [ClearTimeout h])"

definition isRecording :: "client \<Rightarrow> bool" where
  "isRecording c = (case mediaRecorder c of None \<Rightarrow> False | Some r \<Rightarrow> rec_state r = Recording)"

definition recorder_release :: "client \<Rightarrow> effect list" where
  "recorder_release c = (if isRecording c then [RecorderStop] else [])"

definition stream_release :: "client \<Rightarrow> effect list" where
  "stream_release c =
    (case mediaStream c of None \<Rightarrow> [] | Some ms \<Rightarrow> map TrackStop (getTracks ms))"

text \<open>
  Three ways the capture of \<open>demo_voiced\<close> and \<open>demo_silent\<close> can end, each followed by
  the recorder delivering its 3000 bytes: the silence timer stops it at time 1600; the
  host calls \<open>stopListening\<close>; the host calls \<open>disconnect\<close>.
\<close>

definition demo_chunk :: blob where
  "demo_chunk = replicate 3000 0"

definition demo_utterance :: client where
  "demo_utterance = ondataavailable demo_chunk (silence_expired 1600 demo_silent)"

definition demo_cut_short :: client where
  "demo_cut_short = ondataavailable demo_chunk (stopListening demo_voiced)"

definition demo_dropped :: client where
  "demo_dropped = ondataavailable demo_chunk (disconnect demo_voiced)"

section \<open>Basic facts about effects and status\<close>

lemma new_effects_append: "effects c' = effects c @ es \<Longrightarrow> new_effects c c' = es"
  by (simp add: new_effects_def)

lemma perform_eq: "perform e c = c\<lparr>effects := effects c @ [e]\<rparr>"
  by (simp add: perform_def)

lemma emit_eq: "emit ev c = c\<lparr>effects := effects c @ [Dispatch ev (handlers_of c (kind_of ev))]\<rparr>"
  by (simp add: emit_def perform_def)

lemma handlers_of_upd [simp]:
  "handlers_of (c\<lparr>effects := es\<rparr>) k = handlers_of c k"
  "handlers_of (c\<lparr>status := s\<rparr>) k = handlers_of c k"
  by (simp_all add: handlers_of_def)

lemma setStatus_eq:
  "setStatus s c =
     (if status c \<noteq> s
      then c\<lparr>status := s, effects := effects c @ [Dispatch (Ev_status s) (handlers_of c K_status)]\<rparr>
      else c)"
  by (simp add: setStatus_def emit_eq)

lemma setStatus_status: "status (setStatus s c) = s"
  by (simp add: setStatus_eq)

lemma setStatus_effects:
  "effects (setStatus s c) =
     effects c @ (if status c \<noteq> s then [Dispatch (Ev_status s) (handlers_of c K_status)] else [])"
  by (simp add: setStatus_eq)

lemma fold_TrackStop:
  "fold (\<lambda>t. perform (TrackStop t)) ts c = c\<lparr>effects := effects c @ map TrackStop ts\<rparr>"
  by (induction ts arbitrary: c) (simp_all add: perform_eq)

lemma stopListening_eq:
  "stopListening c =
     c\<lparr>vadIntervalId := None, silenceTimeout := None,
       mediaRecorder := map_option (\<lambda>r. if rec_state r = Recording
                                         then r\<lparr>rec_state := Inactive\<rparr> else r) (mediaRecorder c),
       mediaStream := None,
       effects := effects c @ interval_cancel c @ timer_cancel c
                    @ recorder_release c @ stream_release c\<rparr>"
  by (simp add: stopListening_def stop_interval_def stop_silence_timer_def stop_recorder_def
      stop_tracks_def fold_TrackStop perform_eq interval_cancel_def timer_cancel_def
      recorder_release_def stream_release_def isRecording_def split: option.splits)

lemma stopListening_effects:
  "effects (stopListening c) =
     effects c @ interval_cancel c @ timer_cancel c @ recorder_release c @ stream_release c"
  by (simp add: stopListening_eq)

lemma stopListening_twice: "stopListening (stopListening c) = stopListening c"
proof -
  let ?d = "stopListening c"
  have "interval_cancel ?d = []" "timer_cancel ?d = []" "recorder_release ?d = []"
    "stream_release ?d = []"
    by (simp_all add: stopListening_eq interval_cancel_def timer_cancel_def recorder_release_def
        stream_release_def isRecording_def split: option.splits)
  then have "stopListening ?d = ?d\<lparr>vadIntervalId := None, silenceTimeout := None,
       mediaRecorder := map_option (\<lambda>r. if rec_state r = Recording
                                         then r\<lparr>rec_state := Inactive\<rparr> else r) (mediaRecorder ?d),
       mediaStream := None\<rparr>"
    by (subst stopListening_eq [of ?d]) simp
  also have "\<dots> = ?d"
    by (cases "mediaRecorder c") (simp_all add: stopListening_eq)
  finally show ?thesis .
qed

section \<open>Finalize: the decision to send\<close>

text \<open>
  A recording that is finalized after \<open>disconnect\<close>: the voice was detected, 3000 bytes
  were recorded and 700 ms have passed, the status becomes THINKING, and nothing is sent,
  because the client has no socket any more.
\<close>

theorem finalize_without_socket_counterexample:
  "voiceDetected demo_dropped
   \<and> length (concat (audioChunks demo_dropped)) > 2000
   \<and> 1700 - recordingStartTime demo_dropped \<ge> MIN_SPEECH_DURATION
   \<and> status (handleRecordingStop 1700 demo_dropped) = THINKING
   \<and> filter is_socket_emit (new_effects demo_dropped (handleRecordingStop 1700 demo_dropped)) = []"
  by code_simp

text \<open>
  Claim C1, amended. When \<open>handleRecordingStop\<close> runs with the voice-detected flag set,
  more than 2000 bytes assembled and a speech duration of at least 400 ms, the status
  becomes THINKING, no restart is scheduled, and the messages sent are: one
  \<open>audio_input\<close> with the assembled bytes, the mime type and the current mode when the
  client has a socket, none when it has no socket. In every other case the status
  becomes IDLE, nothing is sent, and exactly one timer is set: the restart of
  \<open>startListening\<close> after 500 ms.
\<close>

theorem handleRecordingStop_decision:
  "(voiceDetected c \<and> length (concat (audioChunks c)) > 2000
      \<and> now - recordingStartTime c \<ge> MIN_SPEECH_DURATION \<longrightarrow>
        status (handleRecordingStop now c) = THINKING
      \<and> filter is_socket_emit (new_effects c (handleRecordingStop now c))
          = (case socket c of
               None \<Rightarrow> []
             | Some s \<Rightarrow> [SocketEmit (AudioInput (concat (audioChunks c)) (recorded_mimeType c)
                                        (mode c))])
      \<and> filter is_set_timeout (new_effects c (handleRecordingStop now c)) = [])
   \<and> (\<not> (voiceDetected c \<and> length (concat (audioChunks c)) > 2000
          \<and> now - recordingStartTime c \<ge> MIN_SPEECH_DURATION) \<longrightarrow>
        status (handleRecordingStop now c) = IDLE
      \<and> filter is_socket_emit (new_effects c (handleRecordingStop now c)) = []
      \<and> filter is_set_timeout (new_effects c (handleRecordingStop now c))
          = [SetTimeout RestartListening 500])"
proof -
  let ?ok = "voiceDetected c \<and> length (concat (audioChunks c)) > 2000
      \<and> now - recordingStartTime c \<ge> MIN_SPEECH_DURATION"
  let ?send = "[Console Log [S ''[LogosClient] Sending audio: '',
                             N (int (length (concat (audioChunks c)))), S '' bytes'']]
      @ (if status c \<noteq> THINKING
         then [Dispatch (Ev_status THINKING) (handlers_of c K_status)] else [])
      @ (case socket c of
           None \<Rightarrow> []
         | Some s \<Rightarrow> [SocketEmit (AudioInput (concat (audioChunks c)) (recorded_mimeType c)
                                    (mode c))])"
  let ?drop = "[Console Log [S ''[LogosClient] No valid speech, resuming'']]
      @ (if status c \<noteq> IDLE
         then [Dispatch (Ev_status IDLE) (handlers_of c K_status)] else [])
      @ [SetTimeout RestartListening 500]"
  have s1: "status (handleRecordingStop now c) = THINKING" if ?ok
    using that
    by (simp add: handleRecordingStop_def Let_def setStatus_eq perform_eq split: option.splits)
  have "effects (handleRecordingStop now c) = effects c @ ?send" if ?ok
    using that
    by (simp add: handleRecordingStop_def Let_def setStatus_eq perform_eq split: option.splits)
  then have e1: "new_effects c (handleRecordingStop now c) = ?send" if ?ok
    using that by (intro new_effects_append) simp
  have s2: "status (handleRecordingStop now c) = IDLE" if "\<not> ?ok"
    using that
    by (auto simp add: handleRecordingStop_def Let_def setStatus_eq perform_eq)
  have "effects (handleRecordingStop now c) = effects c @ ?drop" if "\<not> ?ok"
    using that
    by (auto simp add: handleRecordingStop_def Let_def setStatus_eq perform_eq)
  then have e2: "new_effects c (handleRecordingStop now c) = ?drop" if "\<not> ?ok"
    using that by (intro new_effects_append) simp
  have f1: "filter is_socket_emit ?send = (case socket c of
               None \<Rightarrow> []
             | Some s \<Rightarrow> [SocketEmit (AudioInput (concat (audioChunks c)) (recorded_mimeType c)
                                        (mode c))])"
    "filter is_set_timeout ?send = []"
    by (simp_all split: option.splits)
  have f2: "filter is_socket_emit ?drop = []"
    "filter is_set_timeout ?drop = [SetTimeout RestartListening 500]"
    by simp_all
  show ?thesis
  proof (cases ?ok)
    case True
    then show ?thesis using s1 [OF True] e1 [OF True] f1 by simp
  next
    case False
    then show ?thesis using s2 [OF False] e2 [OF False] f2 by simp
  qed
qed

theorem handleRecordingStop_decision_witness:
  "voiceDetected demo_utterance \<and> length (concat (audioChunks demo_utterance)) > 2000
   \<and> 1700 - recordingStartTime demo_utterance \<ge> MIN_SPEECH_DURATION
   \<and> status (handleRecordingStop 1700 demo_utterance) = THINKING
   \<and> filter is_socket_emit (new_effects demo_utterance (handleRecordingStop 1700 demo_utterance))
       = [SocketEmit (AudioInput demo_chunk ''audio/webm'' child)]
   \<and> \<not> (voiceDetected demo_cut_short \<and> length (concat (audioChunks demo_cut_short)) > 2000
          \<and> 1300 - recordingStartTime demo_cut_short \<ge> MIN_SPEECH_DURATION)
   \<and> status (handleRecordingStop 1300 demo_cut_short) = IDLE
   \<and> filter is_socket_emit (new_effects demo_cut_short (handleRecordingStop 1300 demo_cut_short)) = []
   \<and> filter is_set_timeout (new_effects demo_cut_short (handleRecordingStop 1300 demo_cut_short))
       = [SetTimeout RestartListening 500]"
proof -
  have a: "voiceDetected demo_utterance \<and> length (concat (audioChunks demo_utterance)) > 2000
     \<and> 1700 - recordingStartTime demo_utterance \<ge> MIN_SPEECH_DURATION"
    by code_simp
  have b: "\<not> (voiceDetected demo_cut_short \<and> length (concat (audioChunks demo_cut_short)) > 2000
          \<and> 1300 - recordingStartTime demo_cut_short \<ge> MIN_SPEECH_DURATION)"
    by code_simp
  have c: "(case socket demo_utterance of
               None \<Rightarrow> []
             | Some s \<Rightarrow> [SocketEmit (AudioInput (concat (audioChunks demo_utterance))
                  (recorded_mimeType demo_utterance) (mode demo_utterance))])
       = [SocketEmit (AudioInput demo_chunk ''audio/webm'' child)]"
    by code_simp
  show ?thesis
    using a b handleRecordingStop_decision [of demo_utterance 1700]
      handleRecordingStop_decision [of demo_cut_short 1300]
    unfolding c by blast
qed

section \<open>Thresholds\<close>

text \<open>
  Claim C2. Without auto-calibration the silence threshold is \<open>max 5 (35 - 3 * sensitivity)\<close>,
  at least 5, and the voice threshold is 5 above it. With auto-calibration they are the
  noise floor plus 15 and plus 20, the noise floor being the calibrated value, or 10 when
  there is none: then the thresholds are 25 and 30.
\<close>

theorem getVadThresholds_values:
  "(\<not> autoCalibrate (vadConfig c) \<longrightarrow>
      silenceThreshold (getVadThresholds c) = max 5 (35 - sensitivity (vadConfig c) * 3)
      \<and> voiceThreshold (getVadThresholds c) = silenceThreshold (getVadThresholds c) + 5
      \<and> silenceThreshold (getVadThresholds c) \<ge> 5)
   \<and> (autoCalibrate (vadConfig c) \<longrightarrow>
      silenceThreshold (getVadThresholds c)
        = (case calibratedNoiseFloor c of None \<Rightarrow> 10 | Some n \<Rightarrow> n) + 15
      \<and> voiceThreshold (getVadThresholds c)
        = (case calibratedNoiseFloor c of None \<Rightarrow> 10 | Some n \<Rightarrow> n) + 20)
   \<and> (autoCalibrate (vadConfig c) \<and> calibratedNoiseFloor c = None \<longrightarrow>
      silenceThreshold (getVadThresholds c) = 25 \<and> voiceThreshold (getVadThresholds c) = 30)"
  by (simp add: getVadThresholds_def Let_def)

theorem getVadThresholds_values_witness:
  "\<not> autoCalibrate (vadConfig (updateSettings \<lparr>settings_mode = None, vadSensitivity = Some 7,
        vadAutoCalibrate = Some False, vadTimeout = None\<rparr> demo_idle))
   \<and> getVadThresholds (updateSettings \<lparr>settings_mode = None, vadSensitivity = Some 7,
        vadAutoCalibrate = Some False, vadTimeout = None\<rparr> demo_idle)
       = \<lparr>silenceThreshold = 14, voiceThreshold = 19\<rparr>
   \<and> autoCalibrate (vadConfig demo_idle) \<and> calibratedNoiseFloor demo_idle = None
   \<and> getVadThresholds demo_idle = \<lparr>silenceThreshold = 25, voiceThreshold = 30\<rparr>"
proof -
  let ?c = "updateSettings \<lparr>settings_mode = None, vadSensitivity = Some 7,
        vadAutoCalibrate = Some False, vadTimeout = None\<rparr> demo_idle"
  have a: "\<not> autoCalibrate (vadConfig ?c)" by code_simp
  have s: "sensitivity (vadConfig ?c) = 7" by code_simp
  have b: "autoCalibrate (vadConfig demo_idle)" by code_simp
  have n: "calibratedNoiseFloor demo_idle = None" by code_simp
  have "silenceThreshold (getVadThresholds ?c) = 14 \<and> voiceThreshold (getVadThresholds ?c) = 19"
    using getVadThresholds_values [of ?c] a s by simp
  moreover have "silenceThreshold (getVadThresholds demo_idle) = 25
      \<and> voiceThreshold (getVadThresholds demo_idle) = 30"
    using getVadThresholds_values [of demo_idle] b n by simp
  ultimately show ?thesis using a b n by simp
qed

section \<open>The silence timer\<close>

text \<open>
  Claim C3. When the silence timer expires while the voice-detected flag is set: if the
  speech duration (now minus the start time) is below 400 ms, the flag and the timer
  handle are cleared and the capture is not stopped (recorder, stream, sampling interval
  and status are as before, and nothing but the console line happens); if the duration
  is at least 400 ms, \<open>stopListening\<close> runs, which stops a recording recorder.
\<close>

theorem silence_timer_expiry:
  assumes "voiceDetected c"
  shows "(now - recordingStartTime c < MIN_SPEECH_DURATION \<longrightarrow>
            voiceDetected (silence_expired now c) = False
          \<and> silenceTimeout (silence_expired now c) = None
          \<and> silence_expired now c =
              c\<lparr>voiceDetected := False, silenceTimeout := None,
                effects := effects c @ [Console Log [S ''[LogosClient] Silence detected. Duration: '',
                                          N (now - recordingStartTime c), S ''ms'']]\<rparr>
          \<and> mediaRecorder (silence_expired now c) = mediaRecorder c
          \<and> mediaStream (silence_expired now c) = mediaStream c
          \<and> vadIntervalId (silence_expired now c) = vadIntervalId c
          \<and> status (silence_expired now c) = status c
          \<and> filter is_capture_action (new_effects c (silence_expired now c)) = [])
       \<and> (now - recordingStartTime c \<ge> MIN_SPEECH_DURATION \<longrightarrow>
            silence_expired now c =
              stopListening (perform (Console Log [S ''[LogosClient] Silence detected. Duration: '',
                                          N (now - recordingStartTime c), S ''ms'']) c)
          \<and> (isRecording c \<longrightarrow>
                RecorderStop \<in> set (new_effects c (silence_expired now c))
              \<and> \<not> isRecording (silence_expired now c)))"
proof -
  let ?l = "Console Log [S ''[LogosClient] Silence detected. Duration: '',
                         N (now - recordingStartTime c), S ''ms'']"
  have short: "silence_expired now c = c\<lparr>voiceDetected := False, silenceTimeout := None,
                effects := effects c @ [?l]\<rparr>"
    if "now - recordingStartTime c < MIN_SPEECH_DURATION"
    using that by (simp add: silence_expired_def Let_def perform_eq)
  have long: "silence_expired now c = stopListening (perform ?l c)"
    if "now - recordingStartTime c \<ge> MIN_SPEECH_DURATION"
    using that by (simp add: silence_expired_def Let_def)
  have short_eff: "new_effects c (silence_expired now c) = [?l]"
    if "now - recordingStartTime c < MIN_SPEECH_DURATION"
    by (rule new_effects_append) (simp add: short [OF that])
  have long_eff: "new_effects c (stopListening (perform ?l c)) =
      [?l] @ interval_cancel c @ timer_cancel c @ [RecorderStop] @ stream_release c"
    if "isRecording c"
    using that
    by (intro new_effects_append)
       (simp add: stopListening_effects perform_eq interval_cancel_def timer_cancel_def
          recorder_release_def stream_release_def isRecording_def)
  have long_rec: "\<not> isRecording (stopListening (perform ?l c))"
    by (simp add: stopListening_eq isRecording_def perform_eq split: option.splits)
  show ?thesis
    using short short_eff long long_eff long_rec by simp
qed

theorem silence_timer_expiry_witness:
  "voiceDetected demo_silent
   \<and> 1300 - recordingStartTime demo_silent < MIN_SPEECH_DURATION
   \<and> voiceDetected (silence_expired 1300 demo_silent) = False
   \<and> silenceTimeout (silence_expired 1300 demo_silent) = None
   \<and> mediaRecorder (silence_expired 1300 demo_silent) = mediaRecorder demo_silent
   \<and> filter is_capture_action (new_effects demo_silent (silence_expired 1300 demo_silent)) = []
   \<and> 1600 - recordingStartTime demo_silent \<ge> MIN_SPEECH_DURATION
   \<and> isRecording demo_silent
   \<and> RecorderStop \<in> set (new_effects demo_silent (silence_expired 1600 demo_silent))"
proof -
  have v: "voiceDetected demo_silent" by code_simp
  have t: "recordingStartTime demo_silent = 1000" by code_simp
  have r: "isRecording demo_silent" by code_simp
  have s: "1300 - recordingStartTime demo_silent < MIN_SPEECH_DURATION"
    by (simp add: t MIN_SPEECH_DURATION_def)
  have l: "1600 - recordingStartTime demo_silent \<ge> MIN_SPEECH_DURATION"
    by (simp add: t MIN_SPEECH_DURATION_def)
  show ?thesis
    using v r s l silence_timer_expiry [OF v, of 1300] silence_timer_expiry [OF v, of 1600]
    by blast
qed

section \<open>Stopping the capture\<close>

text \<open>
  Claim C4. \<open>stopListening\<close> is idempotent: a second call right after the first changes
  neither the state nor the effects. One call clears the sampling interval, then the
  pending silence timer, and only then stops the recorder and the tracks of the stream,
  each of them if it is there; so over two calls every resource is released once.
  Afterwards no interval, no timer and no stream is held, and the recorder is not
  recording.
\<close>

theorem stopListening_idempotent:
  "stopListening (stopListening c) = stopListening c
   \<and> new_effects (stopListening c) (stopListening (stopListening c)) = []
   \<and> new_effects c (stopListening c)
       = (interval_cancel c @ timer_cancel c) @ (recorder_release c @ stream_release c)
   \<and> new_effects c (stopListening (stopListening c))
       = (interval_cancel c @ timer_cancel c) @ (recorder_release c @ stream_release c)
   \<and> vadIntervalId (stopListening c) = None
   \<and> silenceTimeout (stopListening c) = None
   \<and> \<not> isRecording (stopListening c)
   \<and> mediaStream (stopListening c) = None"
proof -
  have a: "new_effects c (stopListening c)
       = (interval_cancel c @ timer_cancel c) @ (recorder_release c @ stream_release c)"
    by (rule new_effects_append) (simp add: stopListening_effects)
  have b: "new_effects (stopListening c) (stopListening c) = []"
    by (simp add: new_effects_def)
  have c: "vadIntervalId (stopListening c) = None" "silenceTimeout (stopListening c) = None"
    "\<not> isRecording (stopListening c)" "mediaStream (stopListening c) = None"
    by (simp_all add: stopListening_eq isRecording_def split: option.splits)
  show ?thesis
    unfolding stopListening_twice using a b c by simp
qed

theorem stopListening_idempotent_witness:
  "new_effects demo_silent (stopListening (stopListening demo_silent))
     = [ClearInterval (Handle 1), ClearTimeout (Handle 3), RecorderStop, TrackStop 0]"
proof -
  have "vadIntervalId demo_silent = Some (Handle 1)" "silenceTimeout demo_silent = Some (Handle 3)"
    "mediaRecorder demo_silent = Some \<lparr>rec_mimeType = ''audio/webm'', rec_state = Recording\<rparr>"
    "mediaStream demo_silent = Some (MediaStream [0])"
    by code_simp+
  then show ?thesis
    using stopListening_idempotent [of demo_silent]
    by (simp add: interval_cancel_def timer_cancel_def recorder_release_def stream_release_def
        isRecording_def)
qed

section \<open>Status\<close>

text \<open>
  Claim C5. \<open>setStatus\<close> emits a status event exactly when the requested status differs
  from the current one, and the stored status is afterwards the requested one. Setting
  the same status twice, from a different one, emits one status event.
\<close>

theorem setStatus_emits_iff_changed:
  "new_effects c (setStatus s c) =
     (if s \<noteq> status c then [Dispatch (Ev_status s) (handlers_of c K_status)] else [])
   \<and> ((\<exists>e \<in> set (new_effects c (setStatus s c)). is_status_event e) \<longleftrightarrow> s \<noteq> status c)
   \<and> status (setStatus s c) = s
   \<and> (status c \<noteq> s \<longrightarrow>
        filter is_status_event (new_effects c (setStatus s (setStatus s c)))
          = [Dispatch (Ev_status s) (handlers_of c K_status)])"
proof -
  have a: "new_effects c (setStatus s c) =
     (if s \<noteq> status c then [Dispatch (Ev_status s) (handlers_of c K_status)] else [])"
    by (rule new_effects_append) (auto simp: setStatus_effects)
  have b: "setStatus s (setStatus s c) = setStatus s c"
    by (simp add: setStatus_eq)
  show ?thesis
    unfolding b using a by (simp add: setStatus_status)
qed

theorem setStatus_emits_iff_changed_witness:
  "status demo_idle \<noteq> THINKING
   \<and> filter is_status_event (new_effects demo_idle (setStatus THINKING (setStatus THINKING demo_idle)))
       = [Dispatch (Ev_status THINKING) [1]]
   \<and> new_effects demo_idle (setStatus IDLE demo_idle) = []"
proof -
  have h: "status demo_idle \<noteq> THINKING" by code_simp
  have k: "handlers_of demo_idle K_status = [1]" by code_simp
  have i: "status demo_idle = IDLE" by code_simp
  show ?thesis
    using h setStatus_emits_iff_changed [of demo_idle THINKING]
      setStatus_emits_iff_changed [of demo_idle IDLE]
    by (simp add: k i)
qed

section \<open>Inbound errors\<close>

text \<open>
  Claim C6. Whatever the status was, the \<open>auth_error\<close> listener leaves the status
  DISCONNECTED and emits one error event; its message is \<open>Auth failed: \<close> followed by the
  received message and, in parentheses, the received code.
\<close>

theorem auth_error_disconnects:
  "status (on_auth_error code message c) = DISCONNECTED
   \<and> filter is_error_event (new_effects c (on_auth_error code message c))
       = [Dispatch (Ev_error (''Auth failed: '' @ message @ '' ('' @ code @ '')''))
            (handlers_of c K_error)]"
proof -
  have "effects (on_auth_error code message c) =
      effects c @ ([Console Error [S ''[LogosClient] Auth error:'', S code, S message]]
        @ (if status c \<noteq> DISCONNECTED
           then [Dispatch (Ev_status DISCONNECTED) (handlers_of c K_status)] else [])
        @ [Dispatch (Ev_error (''Auth failed: '' @ message @ '' ('' @ code @ '')''))
            (handlers_of c K_error)])"
    by (simp add: on_auth_error_def emit_eq setStatus_eq perform_eq)
  then have "new_effects c (on_auth_error code message c) =
      [Console Error [S ''[LogosClient] Auth error:'', S code, S message]]
        @ (if status c \<noteq> DISCONNECTED
           then [Dispatch (Ev_status DISCONNECTED) (handlers_of c K_status)] else [])
        @ [Dispatch (Ev_error (''Auth failed: '' @ message @ '' ('' @ code @ '')''))
            (handlers_of c K_error)]"
    by (rule new_effects_append)
  moreover have "status (on_auth_error code message c) = DISCONNECTED"
    by (simp add: on_auth_error_def emit_eq setStatus_eq perform_eq)
  ultimately show ?thesis by simp
qed

theorem auth_error_disconnects_witness:
  "status demo_listening = LISTENING
   \<and> status (on_auth_error ''401'' ''bad key'' demo_listening) = DISCONNECTED
   \<and> filter is_error_event
        (new_effects demo_listening (on_auth_error ''401'' ''bad key'' demo_listening))
       = [Dispatch (Ev_error ''Auth failed: bad key (401)'') [2]]"
proof -
  have a: "status demo_listening = LISTENING" by code_simp
  have h: "handlers_of demo_listening K_error = [2]" by code_simp
  show ?thesis
    using a auth_error_disconnects [of "''401''" "''bad key''" demo_listening]
    by (simp add: h)
qed

section \<open>Connecting\<close>

text \<open>
  A client that is connected and idle: \<open>connect\<close> leaves its status as it is.
\<close>

theorem connect_when_connected_counterexample:
  "isConnected demo_idle \<and> status (connect demo_idle) = IDLE
   \<and> status (connect demo_idle) \<noteq> CONNECTING"
  by code_simp

text \<open>
  Claim C7, amended. \<open>connect\<close> called while the socket is not connected leaves the
  status CONNECTING, with a status event if the status was another one. Called while the
  socket is connected it only prints a warning: the status and everything else stay as
  they are.
\<close>

theorem connect_status:
  "(\<not> isConnected c \<longrightarrow>
      status (connect c) = CONNECTING
      \<and> filter is_status_event (new_effects c (connect c))
          = (if status c \<noteq> CONNECTING
             then [Dispatch (Ev_status CONNECTING) (handlers_of c K_status)] else []))
   \<and> (isConnected c \<longrightarrow>
      connect c = perform (Console Warn [S ''[LogosClient] Already connected'']) c
      \<and> status (connect c) = status c
      \<and> new_effects c (connect c) = [Console Warn [S ''[LogosClient] Already connected'']])"
proof -
  have a: "connect c = perform (Console Warn [S ''[LogosClient] Already connected'']) c"
    if "isConnected c"
    using that by (simp add: connect_def)
  have b: "new_effects c (perform e c) = [e]" for e
    by (rule new_effects_append) (simp add: perform_eq)
  have c: "status (connect c) = CONNECTING" if "\<not> isConnected c"
    using that
    by (simp add: connect_def Let_def setupSocketListeners_def setStatus_eq perform_eq io_def)
  have "effects (connect c) = effects c @
      (if status c \<noteq> CONNECTING
       then [Dispatch (Ev_status CONNECTING) (handlers_of c K_status)] else [])
      @ [SocketOpen (sock_url (io (setStatus CONNECTING c)))
           (sock_options (io (setStatus CONNECTING c)))]"
    if "\<not> isConnected c"
    using that
    by (simp add: connect_def Let_def setupSocketListeners_def setStatus_eq perform_eq)
  then have d: "new_effects c (connect c) =
      (if status c \<noteq> CONNECTING
       then [Dispatch (Ev_status CONNECTING) (handlers_of c K_status)] else [])
      @ [SocketOpen (sock_url (io (setStatus CONNECTING c)))
           (sock_options (io (setStatus CONNECTING c)))]"
    if "\<not> isConnected c"
    using that by (intro new_effects_append) simp
  show ?thesis
    using a b c d by (simp add: perform_eq)
qed

theorem connect_status_witness:
  "\<not> isConnected demo_new \<and> status demo_new = DISCONNECTED
   \<and> status (connect demo_new) = CONNECTING
   \<and> isConnected demo_idle
   \<and> status (connect demo_idle) = status demo_idle"
proof -
  have a: "\<not> isConnected demo_new" by code_simp
  have b: "status demo_new = DISCONNECTED" by code_simp
  have c: "isConnected demo_idle" by code_simp
  show ?thesis
    using a b c connect_status [of demo_new] connect_status [of demo_idle] by blast
qed

section \<open>Server errors\<close>

text \<open>
  Claim C8. The \<open>error\<close> listener prints the message and emits one error event carrying
  it. Nothing else changes: the status is as before and no status event is emitted.
\<close>

theorem server_error_keeps_status:
  "on_error message c =
     c\<lparr>effects := effects c @ [Console Error [S ''[LogosClient] Server error:'', S message],
                                Dispatch (Ev_error message) (handlers_of c K_error)]\<rparr>
   \<and> status (on_error message c) = status c
   \<and> filter is_status_event (new_effects c (on_error message c)) = []
   \<and> filter is_error_event (new_effects c (on_error message c))
       = [Dispatch (Ev_error message) (handlers_of c K_error)]"
proof -
  have a: "on_error message c =
     c\<lparr>effects := effects c @ [Console Error [S ''[LogosClient] Server error:'', S message],
                                Dispatch (Ev_error message) (handlers_of c K_error)]\<rparr>"
    by (simp add: on_error_def emit_eq perform_eq)
  have "new_effects c (on_error message c) =
      [Console Error [S ''[LogosClient] Server error:'', S message],
       Dispatch (Ev_error message) (handlers_of c K_error)]"
    by (rule new_effects_append) (simp add: a)
  then show ?thesis using a by simp
qed

theorem server_error_keeps_status_witness:
  "status demo_listening = LISTENING
   \<and> status (on_error ''overloaded'' demo_listening) = LISTENING
   \<and> filter is_status_event (new_effects demo_listening (on_error ''overloaded'' demo_listening)) = []
   \<and> filter is_error_event (new_effects demo_listening (on_error ''overloaded'' demo_listening))
       = [Dispatch (Ev_error ''overloaded'') [2]]"
proof -
  have a: "status demo_listening = LISTENING" by code_simp
  have h: "handlers_of demo_listening K_error = [2]" by code_simp
  show ?thesis
    using a server_error_keeps_status [of "''overloaded''" demo_listening, THEN conjunct2]
    by (simp add: h)
qed

section \<open>Microphone refused\<close>

text \<open>
  Claim C9. When \<open>startListening\<close> is called while connected and not LISTENING, and
  \<^verbatim>\<open>getUserMedia\<close> is rejected, the client prints the error, emits one error event and
  sets the status IDLE. Nothing else happens: no recorder is started, no sampling and no
  timer is scheduled, nothing is sent, and recorder, interval and stream are as before.
\<close>

theorem startListening_denied:
  assumes "isConnected c" and "status c \<noteq> LISTENING" and "getUserMedia env = Inl err"
  shows "startListening env c =
           c\<lparr>status := IDLE,
             effects := effects c @
               [Console Error [S ''[LogosClient] Microphone error:'', S err],
                Dispatch (Ev_error ''Microphone access denied'') (handlers_of c K_error)]
               @ (if status c \<noteq> IDLE
                  then [Dispatch (Ev_status IDLE) (handlers_of c K_status)] else [])\<rparr>
         \<and> status (startListening env c) = IDLE
         \<and> filter is_error_event (new_effects c (startListening env c))
             = [Dispatch (Ev_error ''Microphone access denied'') (handlers_of c K_error)]
         \<and> filter is_capture_action (new_effects c (startListening env c)) = []
         \<and> mediaRecorder (startListening env c) = mediaRecorder c
         \<and> vadIntervalId (startListening env c) = vadIntervalId c
         \<and> mediaStream (startListening env c) = mediaStream c"
proof -
  let ?es = "[Console Error [S ''[LogosClient] Microphone error:'', S err],
                Dispatch (Ev_error ''Microphone access denied'') (handlers_of c K_error)]
               @ (if status c \<noteq> IDLE
                  then [Dispatch (Ev_status IDLE) (handlers_of c K_status)] else [])"
  have a: "startListening env c = c\<lparr>status := IDLE, effects := effects c @ ?es\<rparr>"
    using assms by (simp add: startListening_def emit_eq setStatus_eq perform_eq)
  have "new_effects c (startListening env c) = ?es"
    by (rule new_effects_append) (simp add: a)
  then show ?thesis using a by simp
qed

theorem startListening_denied_witness:
  "isConnected demo_idle \<and> status demo_idle \<noteq> LISTENING
   \<and> getUserMedia demo_env_denied = Inl ''NotAllowedError''
   \<and> status (startListening demo_env_denied demo_idle) = IDLE
   \<and> filter is_error_event (new_effects demo_idle (startListening demo_env_denied demo_idle))
       = [Dispatch (Ev_error ''Microphone access denied'') [2]]
   \<and> filter is_capture_action (new_effects demo_idle (startListening demo_env_denied demo_idle)) = []"
proof -
  have a: "isConnected demo_idle" by code_simp
  have b: "status demo_idle \<noteq> LISTENING" by code_simp
  have c: "getUserMedia demo_env_denied = Inl ''NotAllowedError''" by code_simp
  have h: "handlers_of demo_idle K_error = [2]" by code_simp
  show ?thesis
    using a b c startListening_denied [OF a b c, THEN conjunct2] by (simp add: h)
qed

section \<open>Settings\<close>

text \<open>
  Claim C10. \<open>updateSettings\<close> can change the mode and the VAD configuration only: every
  other field of the client, the effects included, is as before. A field that is absent
  from the argument keeps its value, a field that is present takes the given one.
\<close>

theorem updateSettings_frame:
  "updateSettings settings c =
     c\<lparr>mode := mode (updateSettings settings c),
       vadConfig := vadConfig (updateSettings settings c)\<rparr>
   \<and> (settings_mode settings = None \<longrightarrow> mode (updateSettings settings c) = mode c)
   \<and> (vadSensitivity settings = None \<longrightarrow>
        sensitivity (vadConfig (updateSettings settings c)) = sensitivity (vadConfig c))
   \<and> (vadAutoCalibrate settings = None \<longrightarrow>
        autoCalibrate (vadConfig (updateSettings settings c)) = autoCalibrate (vadConfig c))
   \<and> (vadTimeout settings = None \<longrightarrow>
        timeout (vadConfig (updateSettings settings c)) = timeout (vadConfig c))
   \<and> mode (updateSettings settings c)
       = (case settings_mode settings of None \<Rightarrow> mode c | Some m \<Rightarrow> m)
   \<and> sensitivity (vadConfig (updateSettings settings c))
       = (case vadSensitivity settings of None \<Rightarrow> sensitivity (vadConfig c) | Some v \<Rightarrow> v)
   \<and> autoCalibrate (vadConfig (updateSettings settings c))
       = (case vadAutoCalibrate settings of None \<Rightarrow> autoCalibrate (vadConfig c) | Some v \<Rightarrow> v)
   \<and> timeout (vadConfig (updateSettings settings c))
       = (case vadTimeout settings of None \<Rightarrow> timeout (vadConfig c) | Some v \<Rightarrow> v)
   \<and> status (updateSettings settings c) = status c
   \<and> deviceId (updateSettings settings c) = deviceId c
   \<and> role (updateSettings settings c) = role c
   \<and> socket (updateSettings settings c) = socket c
   \<and> calibratedNoiseFloor (updateSettings settings c) = calibratedNoiseFloor c
   \<and> mediaRecorder (updateSettings settings c) = mediaRecorder c
   \<and> mediaStream (updateSettings settings c) = mediaStream c
   \<and> silenceTimeout (updateSettings settings c) = silenceTimeout c
   \<and> vadIntervalId (updateSettings settings c) = vadIntervalId c
   \<and> voiceDetected (updateSettings settings c) = voiceDetected c
   \<and> eventHandlers (updateSettings settings c) = eventHandlers c
   \<and> effects (updateSettings settings c) = effects c"
  by (simp add: updateSettings_def Let_def split: option.splits)

theorem updateSettings_frame_witness:
  "vadSensitivity \<lparr>settings_mode = Some senior, vadSensitivity = None,
       vadAutoCalibrate = Some False, vadTimeout = None\<rparr> = None
   \<and> sensitivity (vadConfig (updateSettings \<lparr>settings_mode = Some senior, vadSensitivity = None,
       vadAutoCalibrate = Some False, vadTimeout = None\<rparr> demo_listening)) = 5
   \<and> timeout (vadConfig (updateSettings \<lparr>settings_mode = Some senior, vadSensitivity = None,
       vadAutoCalibrate = Some False, vadTimeout = None\<rparr> demo_listening)) = 200
   \<and> mode (updateSettings \<lparr>settings_mode = Some senior, vadSensitivity = None,
       vadAutoCalibrate = Some False, vadTimeout = None\<rparr> demo_listening) = senior
   \<and> autoCalibrate (vadConfig (updateSettings \<lparr>settings_mode = Some senior, vadSensitivity = None,
       vadAutoCalibrate = Some False, vadTimeout = None\<rparr> demo_listening)) = False
   \<and> status (updateSettings \<lparr>settings_mode = Some senior, vadSensitivity = None,
       vadAutoCalibrate = Some False, vadTimeout = None\<rparr> demo_listening) = LISTENING"
proof -
  let ?s = "\<lparr>settings_mode = Some senior, vadSensitivity = None,
       vadAutoCalibrate = Some False, vadTimeout = None\<rparr>"
  have a: "sensitivity (vadConfig demo_listening) = 5" by code_simp
  have b: "timeout (vadConfig demo_listening) = 200" by code_simp
  have c: "status demo_listening = LISTENING" by code_simp
  show ?thesis
    using updateSettings_frame [of ?s demo_listening, THEN conjunct2]
    by (simp add: a b c)
qed

end
